theory Spec2Isabelle
  imports Complex_Main
begin

section \<open>Data model\<close>

text \<open>
  The monitored entity is a Tekton \<^verbatim>\<open>PipelineRun\<close>. Only the fields that
  \<^verbatim>\<open>PipelineRun_exporter.go\<close> and the metrics controller read are kept:
  \<^verbatim>\<open>pr.Namespace\<close>, \<^verbatim>\<open>pr.Name\<close>, \<^verbatim>\<open>pr.ObjectMeta.DeletionTimestamp\<close>,
  \<^verbatim>\<open>pr.Spec.Params\<close>, \<^verbatim>\<open>pr.Status.Conditions\<close> and the result of
  \<^verbatim>\<open>pr.IsPending()\<close>.
\<close>

datatype ConditionStatus = ConditionTrue | ConditionFalse | ConditionUnknown

record Condition =
  cond_Type :: string
  cond_Status :: ConditionStatus
  cond_Reason :: string

datatype ParamType = ParamTypeString | ParamTypeArray | ParamTypeObject

record ParamValue =
  pv_Type :: ParamType
  StringVal :: string
  ArrayVal :: "string list"
  ObjectVal :: "string \<rightharpoonup> string"

record Param =
  param_Name :: string
  param_Value :: ParamValue

record PipelineRunSpec =
  Params :: "Param list"

record PipelineRunStatus =
  Conditions :: "Condition list"

text \<open>
  Modelled from the spec: the method \<^verbatim>\<open>IsPending\<close> belongs to the Tekton API
  package, which is not part of the repository. The spec's entity snapshot
  carries "a pending indicator"; the field \<open>IsPending\<close> is the value that the
  call \<^verbatim>\<open>pr.IsPending()\<close> returns. A \<^verbatim>\<open>*metav1.Time\<close> is a pointer: \<open>None\<close>
  is \<^verbatim>\<open>nil\<close>, \<open>Some t\<close> an instant counted from the zero instant of
  \<^verbatim>\<open>time.Time\<close>.
\<close>

record PipelineRun =
  Namespace :: string
  Name :: string
  DeletionTimestamp :: "int option"
  Spec :: PipelineRunSpec
  Status :: PipelineRunStatus
  IsPending :: bool

text \<open>
  The two constants of the Tekton package \<^verbatim>\<open>v1\<close> that the exporter names,
  \<^verbatim>\<open>v1.PipelineRunReasonSucceeded\<close> and \<^verbatim>\<open>v1.PipelineRunReasonPending\<close>, are
  declared outside the repository. Every function that reads them takes them
  as a parameter, so the general theorems hold for any value they have.
\<close>

record v1_consts =
  PipelineRunReasonSucceeded :: string
  PipelineRunReasonPending :: string

text \<open>
  Modelled from the spec: the values of the two \<^verbatim>\<open>v1\<close> constants, which are
  missing from the sources. The spec names the completion condition type
  \<^verbatim>\<open>Succeeded\<close> and the pending label \<^verbatim>\<open>Pending\<close>. Used only to evaluate the
  code on concrete inputs.
\<close>

definition tekton_v1 :: v1_consts where
  "tekton_v1 = \<lparr>PipelineRunReasonSucceeded = ''Succeeded'',
                PipelineRunReasonPending = ''Pending''\<rparr>"

section \<open>The exporter: \<^verbatim>\<open>PipelineRun_exporter.go\<close>\<close>

subsection \<open>Helper functions\<close>

text \<open>
  \<^verbatim>\<open>for _, c := range pr.Status.Conditions { if c.Type == ... { return c.Reason } }\<close>:
  the loop leaves at the first condition whose type matches; \<open>None\<close> means
  that the loop ran to its end.
\<close>

fun scanConditions :: "string \<Rightarrow> Condition list \<Rightarrow> string option" where
  "scanConditions ty [] = None"
| "scanConditions ty (c # cs) =
     (if cond_Type c = ty then Some (cond_Reason c) else scanConditions ty cs)"

definition getPipelineRunStatus :: "v1_consts \<Rightarrow> PipelineRun \<Rightarrow> string" where
  "getPipelineRunStatus v1 pr =
     (case (if length (Conditions (Status pr)) > 0
            then scanConditions (PipelineRunReasonSucceeded v1) (Conditions (Status pr))
            else None) of
        Some reason \<Rightarrow> reason
      | None \<Rightarrow>
          if IsPending pr then PipelineRunReasonPending v1 else ''Unknown'')"

text \<open>
  \<^verbatim>\<open>strings.Join(elems, sep)\<close> of the Go standard library: the elements in
  their order, \<open>sep\<close> between each two neighbours.
\<close>

fun strings_Join :: "string list \<Rightarrow> string \<Rightarrow> string" where
  "strings_Join [] sep = []"
| "strings_Join [x] sep = x"
| "strings_Join (x # y # ys) sep = x @ sep @ strings_Join (y # ys) sep"

fun scanParams :: "Param list \<Rightarrow> string" where
  "scanParams [] = ''''"
| "scanParams (param # params) =
     (if param_Name param = ''build-platforms''
      then strings_Join (ArrayVal (param_Value param)) '',''
      else scanParams params)"

definition getBuildPlatformLabel :: "PipelineRun \<Rightarrow> string" where
  "getBuildPlatformLabel pr = scanParams (Params (Spec pr))"

text \<open>
  The classifier of the spec, \<^verbatim>\<open>classify(snapshot) -> (StatusLabel, AuxLabels)\<close>,
  is the pair of the two helpers, as \<^verbatim>\<open>Collect\<close> calls them one after the other.
\<close>

definition classify :: "v1_consts \<Rightarrow> PipelineRun \<Rightarrow> string \<times> string" where
  "classify v1 pr = (getPipelineRunStatus v1 pr, getBuildPlatformLabel pr)"

text \<open>
  The classification algorithm in the words of the spec (section 4.1): a
  condition of the completion type counts only "with a definite outcome",
  that is with status \<^verbatim>\<open>True\<close> or \<^verbatim>\<open>False\<close>.
\<close>

definition spec_classify_status :: "v1_consts \<Rightarrow> PipelineRun \<Rightarrow> string" where
  "spec_classify_status v1 pr =
     (case find (\<lambda>c. cond_Type c = PipelineRunReasonSucceeded v1
                     \<and> cond_Status c \<noteq> ConditionUnknown)
                (Conditions (Status pr)) of
        Some c \<Rightarrow> cond_Reason c
      | None \<Rightarrow>
          if IsPending pr then PipelineRunReasonPending v1 else ''Unknown'')"

text \<open>
  The build-platform label in the words of the spec (section 4.1): "if
  present ..., join the values with a fixed delimiter (\<^verbatim>\<open>,\<close>) preserving original
  order; if absent, emit an empty string". The values that a present parameter
  carries are its one string when it is string-valued and the elements of its
  array otherwise. The join is written out: the first value, then every
  further value in its order, each behind a comma.
\<close>

definition spec_paramValues :: "ParamValue \<Rightarrow> string list" where
  "spec_paramValues v = (if pv_Type v = ParamTypeString then [StringVal v] else ArrayVal v)"

definition spec_buildPlatformLabel :: "PipelineRun \<Rightarrow> string" where
  "spec_buildPlatformLabel pr =
     (case find (\<lambda>p. param_Name p = ''build-platforms'') (Params (Spec pr)) of
        None \<Rightarrow> ''''
      | Some p \<Rightarrow>
          (case spec_paramValues (param_Value p) of
             [] \<Rightarrow> ''''
           | v # vs \<Rightarrow> v @ concat (map (\<lambda>x. '','' @ x) vs)))"


subsection \<open>The collector\<close>

text \<open>
  \<^verbatim>\<open>allPossibleStates\<close>, in the order of the source; its sixth entry is the
  constant \<^verbatim>\<open>v1.PipelineRunReasonPending\<close>.
\<close>

definition allPossibleStates :: "v1_consts \<Rightarrow> string list" where
  "allPossibleStates v1 =
     [''Succeeded'', ''Failed'', ''Running'', ''PipelineRunPending'',
      ''PipelineRunCancelled'', PipelineRunReasonPending v1, ''Unknown'']"

text \<open>
  One sample sent to the channel: the four label values in the order of the
  metric description (\<^verbatim>\<open>namespace\<close>, \<^verbatim>\<open>name\<close>, \<^verbatim>\<open>status\<close>, \<^verbatim>\<open>build_platform\<close>)
  and the gauge value, which is only ever \<^verbatim>\<open>0.0\<close> or \<^verbatim>\<open>1.0\<close>.
  \<^verbatim>\<open>MustNewConstMetric\<close> is given four label values for a description of four
  labels, so its panic on a wrong label count has no branch here.
\<close>

record Metric =
  namespace :: string
  name :: string
  status :: string
  build_platform :: string
  val :: real

datatype StatusReason = StatusReasonNotFound | StatusReasonTimeout | StatusReasonUnknown

datatype error = StatusError StatusReason string | OtherError string

datatype LogEntry = LogCollecting | LogListError error | LogCollected nat

text \<open>The inner loop \<^verbatim>\<open>for _, state := range allPossibleStates\<close>.\<close>

fun stateSet :: "PipelineRun \<Rightarrow> string \<Rightarrow> string \<Rightarrow> string list \<Rightarrow> Metric list" where
  "stateSet pr currentStatus platformLabel [] = []"
| "stateSet pr currentStatus platformLabel (state # states) =
     \<lparr>namespace = Namespace pr, name = Name pr, status = state,
      build_platform = platformLabel,
      val = (if state = currentStatus then 1 else 0)\<rparr>
     # stateSet pr currentStatus platformLabel states"

text \<open>The outer loop \<^verbatim>\<open>for _, pr := range prList.Items\<close>.\<close>

fun collectItems :: "v1_consts \<Rightarrow> PipelineRun list \<Rightarrow> Metric list" where
  "collectItems v1 [] = []"
| "collectItems v1 (pr # prs) =
     stateSet pr (getPipelineRunStatus v1 pr) (getBuildPlatformLabel pr)
       (allPossibleStates v1)
     @ collectItems v1 prs"

text \<open>
  \<^verbatim>\<open>Collect\<close> (here \<open>Collect_metrics\<close>) has no return value. What it does is send samples on the channel
  \<^verbatim>\<open>ch\<close> and write log lines; the caller (the registry that serves the scrape)
  sees the channel only. The result of the \<^verbatim>\<open>List\<close> call is the argument:
  \<open>Inl err\<close> when the call fails, \<open>Inr items\<close> with \<^verbatim>\<open>prList.Items\<close> otherwise.
\<close>

record CollectEffects =
  sent :: "Metric list"
  logged :: "LogEntry list"

definition Collect_metrics :: "v1_consts \<Rightarrow> error + PipelineRun list \<Rightarrow> CollectEffects" where
  "Collect_metrics v1 listing =
     (case listing of
        Inl err \<Rightarrow> \<lparr>sent = [], logged = [LogCollecting, LogListError err]\<rparr>
      | Inr items \<Rightarrow>
          \<lparr>sent = collectItems v1 items,
           logged = [LogCollecting, LogCollected (length items)]\<rparr>)"

section \<open>The metrics controller: \<^verbatim>\<open>pipelinerun_metrics_controller.go\<close>\<close>

type_synonym NamespacedName = "string \<times> string"

text \<open>
  Modelled from the spec: the metric state store and the three helpers of the
  package \<^verbatim>\<open>cel\<close> that \<^verbatim>\<open>Reconcile\<close> calls are not among the sources (the
  controller's own comment says they are still to be created). Section 4.2 of
  the spec gives their contract: the Store maps an entity identity to at most
  one record (active status label and auxiliary label values);
  \<^verbatim>\<open>remove(identity)\<close> "deletes the record if present; removal of an absent
  identity is a no-op"; \<^verbatim>\<open>upsert(identity, record)\<close> "replaces any prior record";
  an observed entity is classified and the result upserted (section 4.3).
\<close>

type_synonym Store = "NamespacedName \<rightharpoonup> string \<times> string"

definition DeletePipelineRunStatusMetricByNamespacedName ::
    "NamespacedName \<Rightarrow> Store \<Rightarrow> Store" where
  "DeletePipelineRunStatusMetricByNamespacedName nn st = st(nn := None)"

definition DeletePipelineRunStatusMetric :: "PipelineRun \<Rightarrow> Store \<Rightarrow> Store" where
  "DeletePipelineRunStatusMetric pr st = st((Namespace pr, Name pr) := None)"

definition UpdatePipelineRunStatusMetric ::
    "v1_consts \<Rightarrow> PipelineRun \<Rightarrow> Store \<Rightarrow> Store" where
  "UpdatePipelineRunStatusMetric v1 pr st =
     st((Namespace pr, Name pr) \<mapsto> classify v1 pr)"

text \<open>
  \<^verbatim>\<open>errors.IsNotFound\<close> of the Kubernetes API machinery and
  \<^verbatim>\<open>(*metav1.Time).IsZero\<close>: a \<^verbatim>\<open>nil\<close> pointer and the zero instant are zero.
\<close>

fun IsNotFound :: "error \<Rightarrow> bool" where
  "IsNotFound (StatusError reason msg) = (reason = StatusReasonNotFound)"
| "IsNotFound (OtherError msg) = False"

fun IsZero :: "int option \<Rightarrow> bool" where
  "IsZero None = True"
| "IsZero (Some t) = (t = 0)"

text \<open>\<^verbatim>\<open>ctrl.Result\<close>; \<^verbatim>\<open>ctrl.Result{}\<close> is its zero value.\<close>

record Result =
  Requeue :: bool
  RequeueAfter :: nat

definition Result_zero :: Result where
  "Result_zero = \<lparr>Requeue = False, RequeueAfter = 0\<rparr>"

datatype InfoEntry =
    InfoNotFound NamespacedName
  | InfoDeleting string

text \<open>
  What \<^verbatim>\<open>Reconcile\<close> can change: the Store and the lines written with
  \<^verbatim>\<open>logger.Info\<close>.
\<close>

record ReconcilerState =
  store :: Store
  info :: "InfoEntry list"

text \<open>
  \<^verbatim>\<open>Reconcile\<close> returns \<^verbatim>\<open>(ctrl.Result, error)\<close>; \<open>None\<close> is the \<^verbatim>\<open>nil\<close> error.
  \<open>Get\<close> is the cluster client's \<^verbatim>\<open>r.Get(ctx, req.NamespacedName, &pr)\<close>:
  \<open>Inl err\<close> when the lookup fails, \<open>Inr pr\<close> with the fetched object
  otherwise.
\<close>

definition Reconcile ::
    "v1_consts \<Rightarrow> (NamespacedName \<Rightarrow> error + PipelineRun) \<Rightarrow> ReconcilerState
       \<Rightarrow> NamespacedName \<Rightarrow> ReconcilerState \<times> Result \<times> error option" where
  "Reconcile v1 Get s req =
     (case Get req of
        Inl err \<Rightarrow>
          if IsNotFound err
          then (s\<lparr>store := DeletePipelineRunStatusMetricByNamespacedName req (store s),
                  info := info s @ [InfoNotFound req]\<rparr>,
                Result_zero, None)
          else (s, Result_zero, Some err)
      | Inr pr \<Rightarrow>
          if \<not> IsZero (DeletionTimestamp pr)
          then (s\<lparr>store := DeletePipelineRunStatusMetric pr (store s),
                  info := info s @ [InfoDeleting (Name pr)]\<rparr>,
                Result_zero, None)
          else (s\<lparr>store := UpdatePipelineRunStatusMetric v1 pr (store s)\<rparr>,
                Result_zero, None))"

text \<open>
  The two deletion signals that \<^verbatim>\<open>Reconcile\<close> tells apart: the lookup answers
  "not found" (hard delete), or it returns an entity whose deletion timestamp is
  set (soft delete).
\<close>

definition notFoundSignal ::
    "(NamespacedName \<Rightarrow> error + PipelineRun) \<Rightarrow> NamespacedName \<Rightarrow> bool" where
  "notFoundSignal Get req = (case Get req of Inl err \<Rightarrow> IsNotFound err | Inr pr \<Rightarrow> False)"

definition deletionSignal ::
    "(NamespacedName \<Rightarrow> error + PipelineRun) \<Rightarrow> NamespacedName \<Rightarrow> bool" where
  "deletionSignal Get req =
     (case Get req of
        Inl err \<Rightarrow> IsNotFound err
      | Inr pr \<Rightarrow> \<not> IsZero (DeletionTimestamp pr))"

section \<open>Concrete entities\<close>

text \<open>
  A parameter value that holds a single string: only \<^verbatim>\<open>StringVal\<close> is set,
  \<^verbatim>\<open>ArrayVal\<close> is the \<^verbatim>\<open>nil\<close> slice.
\<close>

definition stringValued :: "ParamValue \<Rightarrow> bool" where
  "stringValued v = (pv_Type v = ParamTypeString \<and> ArrayVal v = [])"

definition mkPipelineRun ::
    "string \<Rightarrow> string \<Rightarrow> Condition list \<Rightarrow> bool \<Rightarrow> Param list \<Rightarrow> PipelineRun" where
  "mkPipelineRun ns n conds pending params =
     \<lparr>Namespace = ns, Name = n, DeletionTimestamp = None,
      Spec = \<lparr>Params = params\<rparr>, Status = \<lparr>Conditions = conds\<rparr>,
      IsPending = pending\<rparr>"

text \<open>A run that is executing: completion condition present, outcome unknown.\<close>

definition pr_running :: PipelineRun where
  "pr_running =
     mkPipelineRun ''ns'' ''c''
       [\<lparr>cond_Type = ''Succeeded'', cond_Status = ConditionUnknown,
         cond_Reason = ''Running''\<rparr>] False []"

text \<open>A run that the user cancelled, as the repository's README lists it.\<close>

definition pr_cancelled :: PipelineRun where
  "pr_cancelled =
     mkPipelineRun ''ns'' ''a''
       [\<lparr>cond_Type = ''Succeeded'', cond_Status = ConditionFalse,
         cond_Reason = ''Cancelled''\<rparr>] False []"

text \<open>A run whose \<^verbatim>\<open>build-platforms\<close> parameter is one string, not an array.\<close>

definition pr_string_platform :: PipelineRun where
  "pr_string_platform =
     mkPipelineRun ''ns'' ''b'' [] True
       [\<lparr>param_Name = ''build-platforms'',
         param_Value = \<lparr>pv_Type = ParamTypeString, StringVal = ''linux/amd64'',
                        ArrayVal = [], ObjectVal = Map.empty\<rparr>\<rparr>]"

text \<open>
  A run built for two platforms, the example in the comment of
  \<^verbatim>\<open>getBuildPlatformLabel\<close>; the parameter comes second in the list.
\<close>

definition pr_multi_platform :: PipelineRun where
  "pr_multi_platform =
     mkPipelineRun ''ns'' ''m'' [] False
       [\<lparr>param_Name = ''revision'',
         param_Value = \<lparr>pv_Type = ParamTypeString, StringVal = ''main'',
                        ArrayVal = [], ObjectVal = Map.empty\<rparr>\<rparr>,
        \<lparr>param_Name = ''build-platforms'',
         param_Value = \<lparr>pv_Type = ParamTypeArray, StringVal = '''',
                        ArrayVal = [''linux/amd64'', ''linux/arm64''],
                        ObjectVal = Map.empty\<rparr>\<rparr>]"


text \<open>The running entity once its deletion timestamp is set.\<close>

definition pr_terminating :: PipelineRun where
  "pr_terminating = pr_running\<lparr>DeletionTimestamp := Some 1700000000\<rparr>"

section \<open>Properties of the exporter\<close>

subsection \<open>Loops as searches\<close>

lemma scanConditions_find:
  "scanConditions ty cs = map_option cond_Reason (find (\<lambda>c. cond_Type c = ty) cs)"
  by (induction cs) simp_all

lemma scanParams_find:
  "scanParams ps =
     (case find (\<lambda>p. param_Name p = ''build-platforms'') ps of
        None \<Rightarrow> ''''
      | Some p \<Rightarrow> strings_Join (ArrayVal (param_Value p)) '','')"
  by (induction ps) simp_all

lemma scanParams_absent:
  "scanParams (filter (\<lambda>p. param_Name p \<noteq> ''build-platforms'') ps) = ''''"
  by (induction ps) simp_all

lemma stateSet_map:
  "stateSet pr cur pl states =
     map (\<lambda>state. \<lparr>namespace = Namespace pr, name = Name pr, status = state,
                    build_platform = pl, val = (if state = cur then 1 else 0)\<rparr>) states"
  by (induction states) simp_all

lemma stateSet_build_platform:
  "map build_platform (stateSet pr cur pl states) = replicate (length states) pl"
  by (induction states) simp_all

text \<open>
  \<^verbatim>\<open>strings.Join\<close> written out with the list functions of the library: the
  first element, then every further element in its order behind the
  separator.
\<close>

lemma strings_Join_closed:
  "strings_Join xs sep = (case xs of [] \<Rightarrow> [] | v # vs \<Rightarrow> v @ concat (map (\<lambda>x. sep @ x) vs))"
  by (induction xs sep rule: strings_Join.induct) simp_all

lemma collectItems_build_platform:
  "map build_platform (collectItems v1 items) =
     concat (map (\<lambda>pr. replicate (length (allPossibleStates v1))
                               (getBuildPlatformLabel pr)) items)"
  by (induction items) (simp_all add: stateSet_build_platform)

text \<open>
  The number of rows with value 1 that the inner loop emits for one entity is
  the number of times the entity's status occurs in the list of states: none
  when the status is not listed.
\<close>

lemma stateSet_active_rows:
  "length (filter (\<lambda>m. val m = 1) (stateSet pr cur pl states)) = count_list states cur"
  by (induction states) simp_all

lemma stateSet_identities:
  "states \<noteq> [] \<Longrightarrow>
   (\<lambda>m. (namespace m, name m)) ` set (stateSet pr cur pl states) = {(Namespace pr, Name pr)}"
  by (cases states) (auto simp: stateSet_map image_image)

lemma allPossibleStates_nonempty: "allPossibleStates v1 \<noteq> []"
  by (simp add: allPossibleStates_def)

lemma collectItems_concat:
  "collectItems v1 items =
     concat (map (\<lambda>pr. stateSet pr (getPipelineRunStatus v1 pr) (getBuildPlatformLabel pr)
                          (allPossibleStates v1)) items)"
  by (induction items) simp_all

lemma collectItems_identities:
  "(\<lambda>m. (namespace m, name m)) ` set (collectItems v1 items)
     = (\<lambda>pr. (Namespace pr, Name pr)) ` set items"
  by (induction items)
     (simp_all add: image_Un stateSet_identities allPossibleStates_nonempty)

subsection \<open>Status classification\<close>

text \<open>
  C1, as the code has it: \<^verbatim>\<open>getPipelineRunStatus\<close> returns the reason of the
  first condition, in source order, whose type is the completion type,
  whatever the outcome (true, false or unknown) of that condition; when there
  is no such condition it returns the pending label if the entity is pending,
  and \<^verbatim>\<open>Unknown\<close> otherwise.
\<close>

theorem getPipelineRunStatus_first_match:
  "getPipelineRunStatus v1 pr =
     (case find (\<lambda>c. cond_Type c = PipelineRunReasonSucceeded v1) (Conditions (Status pr)) of
        Some c \<Rightarrow> cond_Reason c
      | None \<Rightarrow> if IsPending pr then PipelineRunReasonPending v1 else ''Unknown'')"
proof (cases "Conditions (Status pr)")
  case Nil
  then show ?thesis by (simp add: getPipelineRunStatus_def)
next
  case (Cons c cs)
  then have "0 < length (Conditions (Status pr))" by simp
  then show ?thesis
    by (simp add: getPipelineRunStatus_def scanConditions_find split: option.split)
qed

text \<open>
  C1, as the spec words it, fails: the reason would be returned only for a
  condition "with a definite outcome". A running entity has the completion
  condition with outcome unknown and reason \<^verbatim>\<open>Running\<close>, and is not pending:
  the spec's algorithm answers \<^verbatim>\<open>Unknown\<close>, the code answers \<^verbatim>\<open>Running\<close>.
\<close>

theorem getPipelineRunStatus_outcome_counterexample:
  "getPipelineRunStatus tekton_v1 pr_running = ''Running''
   \<and> spec_classify_status tekton_v1 pr_running = ''Unknown''"
  by (simp add: getPipelineRunStatus_def spec_classify_status_def tekton_v1_def
      pr_running_def mkPipelineRun_def)

text \<open>
  C9: the classifier is a total function of the snapshot alone. Both helpers
  are structural recursions over a finite list with no failing branch, so
  every snapshot has a status label and an auxiliary label; the status label
  is a reason of one of the conditions, the pending label or \<^verbatim>\<open>Unknown\<close>; and
  the snapshot with no condition, the pending indicator unset and no parameter
  is classified as \<^verbatim>\<open>Unknown\<close> with the empty auxiliary label.
\<close>

theorem classify_total:
  "(\<exists>label aux. classify v1 pr = (label, aux))
   \<and> fst (classify v1 pr)
       \<in> set (map cond_Reason (Conditions (Status pr)))
         \<union> {PipelineRunReasonPending v1, ''Unknown''}
   \<and> classify v1 (mkPipelineRun ns n [] False []) = (''Unknown'', '''')"
proof -
  have scan: "scanConditions ty cs = Some r \<Longrightarrow> r \<in> cond_Reason ` set cs" for ty cs r
    by (induction cs) (auto split: if_splits)
  have "getPipelineRunStatus v1 pr
          \<in> cond_Reason ` set (Conditions (Status pr))
            \<union> {PipelineRunReasonPending v1, ''Unknown''}"
    by (auto simp: getPipelineRunStatus_def split: option.splits if_splits dest: scan)
  moreover have "classify v1 (mkPipelineRun ns n [] False []) = (''Unknown'', '''')"
    by (simp add: classify_def getPipelineRunStatus_def getBuildPlatformLabel_def
        mkPipelineRun_def)
  ultimately show ?thesis by (simp add: classify_def)
qed

subsection \<open>The build-platform label\<close>

text \<open>
  C8, as the code has it: the build-platform label is the empty string when no
  parameter is named \<^verbatim>\<open>build-platforms\<close>; otherwise it is made of the array
  values of the first such parameter: the first value, then every further
  value in its original order behind a comma, which is the empty string when
  the array is empty, as it is for a parameter that carries a single string.
  The array \<^verbatim>\<open>["linux/amd64", "linux/arm64"]\<close> gives
  \<^verbatim>\<open>linux/amd64,linux/arm64\<close>. The label is never omitted: each of the seven
  rows that a scrape emits for a listed entity carries the label of that
  entity.
\<close>

theorem getBuildPlatformLabel_array_joined:
  "getBuildPlatformLabel pr =
     (case find (\<lambda>p. param_Name p = ''build-platforms'') (Params (Spec pr)) of
        None \<Rightarrow> ''''
      | Some p \<Rightarrow>
          (case ArrayVal (param_Value p) of
             [] \<Rightarrow> ''''
           | v # vs \<Rightarrow> v @ concat (map (\<lambda>x. '','' @ x) vs)))
   \<and> getBuildPlatformLabel pr_multi_platform = ''linux/amd64,linux/arm64''
   \<and> map build_platform (sent (Collect_metrics v1 (Inr items)))
       = concat (map (\<lambda>pr. replicate (length (allPossibleStates v1))
                                 (getBuildPlatformLabel pr)) items)
   \<and> length (allPossibleStates v1) = 7"
proof -
  have "getBuildPlatformLabel pr_multi_platform = ''linux/amd64,linux/arm64''"
    by (simp add: getBuildPlatformLabel_def pr_multi_platform_def mkPipelineRun_def)
  then show ?thesis
    by (simp add: getBuildPlatformLabel_def scanParams_find strings_Join_closed
        Collect_metrics_def collectItems_build_platform allPossibleStates_def
        split: option.split list.split)
qed

text \<open>
  C8, as the spec words it, fails: the label would be the joined values of
  the parameter whenever the parameter is present. The entity whose
  \<^verbatim>\<open>build-platforms\<close> parameter is present with the single string value
  \<^verbatim>\<open>linux/amd64\<close> has, in the spec's words, the label \<^verbatim>\<open>linux/amd64\<close>; the
  code joins the array only, which is empty, and returns the empty string.
\<close>

theorem getBuildPlatformLabel_string_value_counterexample:
  "find (\<lambda>p. param_Name p = ''build-platforms'') (Params (Spec pr_string_platform))
     = Some \<lparr>param_Name = ''build-platforms'',
         param_Value = \<lparr>pv_Type = ParamTypeString, StringVal = ''linux/amd64'',
                        ArrayVal = [], ObjectVal = Map.empty\<rparr>\<rparr>
   \<and> spec_buildPlatformLabel pr_string_platform = ''linux/amd64''
   \<and> getBuildPlatformLabel pr_string_platform = ''''"
  by (simp add: getBuildPlatformLabel_def spec_buildPlatformLabel_def spec_paramValues_def
      pr_string_platform_def mkPipelineRun_def)

text \<open>
  C10: when the \<^verbatim>\<open>build-platforms\<close> parameter is present with a single string
  value, the label is the empty string, and the rows emitted for the entity
  are the rows emitted for the same entity without the parameter.
\<close>

theorem getBuildPlatformLabel_string_valued:
  "find (\<lambda>p. param_Name p = ''build-platforms'') (Params (Spec pr)) = Some p
   \<Longrightarrow> stringValued (param_Value p)
   \<Longrightarrow> getBuildPlatformLabel pr = ''''
       \<and> sent (Collect_metrics v1 (Inr [pr]))
         = sent (Collect_metrics v1 (Inr [pr\<lparr>Spec := \<lparr>Params =
             filter (\<lambda>p. param_Name p \<noteq> ''build-platforms'') (Params (Spec pr))\<rparr>\<rparr>]))"
proof -
  assume f: "find (\<lambda>p. param_Name p = ''build-platforms'') (Params (Spec pr)) = Some p"
    and sv: "stringValued (param_Value p)"
  have lbl: "getBuildPlatformLabel pr = ''''"
    using f sv by (simp add: getBuildPlatformLabel_def scanParams_find stringValued_def)
  have "stateSet (pr\<lparr>Spec := sp\<rparr>) cur pl states = stateSet pr cur pl states"
    for sp cur pl states
    by (simp add: stateSet_map)
  then show ?thesis
    using lbl
    by (simp add: Collect_metrics_def getBuildPlatformLabel_def scanParams_absent
        getPipelineRunStatus_def)
qed

text \<open>
  C10 at the entity whose \<^verbatim>\<open>build-platforms\<close> parameter is the string
  \<^verbatim>\<open>linux/amd64\<close>.
\<close>

theorem getBuildPlatformLabel_string_valued_witness:
  "find (\<lambda>p. param_Name p = ''build-platforms'') (Params (Spec pr_string_platform))
     = Some \<lparr>param_Name = ''build-platforms'',
         param_Value = \<lparr>pv_Type = ParamTypeString, StringVal = ''linux/amd64'',
                        ArrayVal = [], ObjectVal = Map.empty\<rparr>\<rparr>
   \<and> stringValued \<lparr>pv_Type = ParamTypeString, StringVal = ''linux/amd64'',
                    ArrayVal = [], ObjectVal = Map.empty\<rparr>
   \<and> getBuildPlatformLabel pr_string_platform = ''''"
  using getBuildPlatformLabel_string_valued [of pr_string_platform
      "\<lparr>param_Name = ''build-platforms'',
         param_Value = \<lparr>pv_Type = ParamTypeString, StringVal = ''linux/amd64'',
                        ArrayVal = [], ObjectVal = Map.empty\<rparr>\<rparr>" tekton_v1]
  by (simp add: pr_string_platform_def mkPipelineRun_def stringValued_def)

subsection \<open>The scrape\<close>

text \<open>
  C2 at a cancelled entity (completion condition with outcome false and reason
  \<^verbatim>\<open>Cancelled\<close>): \<^verbatim>\<open>Collect\<close> emits the seven rows of \<^verbatim>\<open>allPossibleStates\<close> and
  every one of them has value 0, since \<^verbatim>\<open>Cancelled\<close> is not in the list.
\<close>

theorem Collect_cancelled_all_rows_zero:
  "map (\<lambda>m. (status m, val m)) (sent (Collect_metrics tekton_v1 (Inr [pr_cancelled]))) =
     [(''Succeeded'', 0), (''Failed'', 0), (''Running'', 0), (''PipelineRunPending'', 0),
      (''PipelineRunCancelled'', 0), (''Pending'', 0), (''Unknown'', 0)]"
  by (simp add: Collect_metrics_def getPipelineRunStatus_def getBuildPlatformLabel_def
      allPossibleStates_def tekton_v1_def pr_cancelled_def mkPipelineRun_def)

text \<open>
  C3, as the code has it: when the listing fails, \<^verbatim>\<open>Collect\<close> writes the error
  to the log and sends no sample at all; what the caller receives is what it
  receives from a successful scrape of an empty listing.
\<close>

theorem Collect_list_failure_sends_nothing:
  "Collect_metrics v1 (Inl err) = \<lparr>sent = [], logged = [LogCollecting, LogListError err]\<rparr>
   \<and> sent (Collect_metrics v1 (Inl err)) = sent (Collect_metrics v1 (Inr []))"
  by (simp add: Collect_metrics_def)

text \<open>
  C3, as the spec words it, fails: a listing that times out gives the caller
  the empty sequence of samples, the very output of a successful scrape that
  listed no entity, and no failure is reported.
\<close>

theorem Collect_list_failure_counterexample:
  "sent (Collect_metrics tekton_v1 (Inl (StatusError StatusReasonTimeout ''timeout''))) = []
   \<and> sent (Collect_metrics tekton_v1 (Inl (StatusError StatusReasonTimeout ''timeout'')))
     = sent (Collect_metrics tekton_v1 (Inr []))"
  by (simp add: Collect_metrics_def)

text \<open>
  C4: the identities that occur in the rows of a scrape are exactly the
  identities of the entities in the listing of that scrape. \<^verbatim>\<open>Collect\<close> reads
  nothing but the listing, so an entity of an earlier listing that is absent
  from this one has no row.
\<close>

theorem Collect_emits_exactly_listed:
  "(\<lambda>m. (namespace m, name m)) ` set (sent (Collect_metrics v1 (Inr items)))
     = (\<lambda>pr. (Namespace pr, Name pr)) ` set items"
  by (simp add: Collect_metrics_def collectItems_identities)

section \<open>Properties of the metrics controller\<close>

text \<open>
  C5: when the fetched entity has its deletion timestamp set, \<^verbatim>\<open>Reconcile\<close>
  removes the record of that entity and does nothing else to the Store (no
  record is written), whatever conditions the entity carries; afterwards the
  Store has no record for the identity, and no error is returned.
\<close>

theorem Reconcile_soft_delete:
  "Get req = Inr pr \<Longrightarrow> \<not> IsZero (DeletionTimestamp pr)
   \<Longrightarrow> store (fst (Reconcile v1 Get s req)) = (store s)((Namespace pr, Name pr) := None)
       \<and> store (fst (Reconcile v1 Get s req)) (Namespace pr, Name pr) = None
       \<and> snd (Reconcile v1 Get s req) = (Result_zero, None)"
  by (simp add: Reconcile_def DeletePipelineRunStatusMetric_def)

text \<open>
  C5 at the entity \<^verbatim>\<open>ns/c\<close>, recorded as \<^verbatim>\<open>Running\<close> and then observed with its
  deletion timestamp set.
\<close>

theorem Reconcile_soft_delete_witness:
  "(\<lambda>_. Inr pr_terminating) (''ns'', ''c'') = Inr pr_terminating
   \<and> \<not> IsZero (DeletionTimestamp pr_terminating)
   \<and> store (fst (Reconcile tekton_v1 (\<lambda>_. Inr pr_terminating)
         \<lparr>store = [(''ns'', ''c'') \<mapsto> (''Running'', '''')], info = []\<rparr> (''ns'', ''c'')))
       (''ns'', ''c'') = None"
  using Reconcile_soft_delete [of "\<lambda>_. Inr pr_terminating" "(''ns'', ''c'')" pr_terminating
      tekton_v1 "\<lparr>store = [(''ns'', ''c'') \<mapsto> (''Running'', '''')], info = []\<rparr>"]
  by (simp add: pr_terminating_def pr_running_def mkPipelineRun_def)

text \<open>
  C6: processing a "not found" or a soft-delete signal a second time leaves
  the Store as the first processing left it and returns no error; a "not
  found" signal for an identity without a record leaves the Store as it was
  and returns no error.
\<close>

theorem Reconcile_delete_idempotent:
  "deletionSignal Get req
   \<Longrightarrow> store (fst (Reconcile v1 Get (fst (Reconcile v1 Get s req)) req))
         = store (fst (Reconcile v1 Get s req))
       \<and> snd (Reconcile v1 Get (fst (Reconcile v1 Get s req)) req) = (Result_zero, None)
       \<and> (notFoundSignal Get req \<and> store s req = None
            \<longrightarrow> store (fst (Reconcile v1 Get s req)) = store s
              \<and> snd (Reconcile v1 Get s req) = (Result_zero, None))"
  by (auto simp: deletionSignal_def notFoundSignal_def Reconcile_def
      DeletePipelineRunStatusMetric_def DeletePipelineRunStatusMetricByNamespacedName_def
      split: sum.splits)

text \<open>
  C6 at the identity \<^verbatim>\<open>ns/d\<close>, never observed, on an empty Store.
\<close>

theorem Reconcile_delete_idempotent_witness:
  "deletionSignal (\<lambda>_. Inl (StatusError StatusReasonNotFound ''not found'')) (''ns'', ''d'')
   \<and> notFoundSignal (\<lambda>_. Inl (StatusError StatusReasonNotFound ''not found'')) (''ns'', ''d'')
   \<and> store \<lparr>store = Map.empty, info = []\<rparr> (''ns'', ''d'') = None
   \<and> store (fst (Reconcile tekton_v1 (\<lambda>_. Inl (StatusError StatusReasonNotFound ''not found''))
         \<lparr>store = Map.empty, info = []\<rparr> (''ns'', ''d''))) = Map.empty
   \<and> snd (Reconcile tekton_v1 (\<lambda>_. Inl (StatusError StatusReasonNotFound ''not found''))
         \<lparr>store = Map.empty, info = []\<rparr> (''ns'', ''d'')) = (Result_zero, None)"
  using Reconcile_delete_idempotent
      [of "\<lambda>_. Inl (StatusError StatusReasonNotFound ''not found'')" "(''ns'', ''d'')"
          tekton_v1 "\<lparr>store = Map.empty, info = []\<rparr>"]
  by (simp add: deletionSignal_def notFoundSignal_def)

text \<open>
  C7: when the lookup fails with an error other than "not found",
  \<^verbatim>\<open>Reconcile\<close> returns that error and leaves the whole state, the Store
  included, as it was.
\<close>

theorem Reconcile_transient_error:
  "Get req = Inl err \<Longrightarrow> \<not> IsNotFound err
   \<Longrightarrow> Reconcile v1 Get s req = (s, Result_zero, Some err)"
  by (simp add: Reconcile_def)

text \<open>
  C7 at a lookup that times out while the Store records \<^verbatim>\<open>ns/c\<close> as
  \<^verbatim>\<open>Running\<close>.
\<close>

theorem Reconcile_transient_error_witness:
  "(\<lambda>_. Inl (StatusError StatusReasonTimeout ''timeout'')) (''ns'', ''c'')
     = (Inl (StatusError StatusReasonTimeout ''timeout'') :: error + PipelineRun)
   \<and> \<not> IsNotFound (StatusError StatusReasonTimeout ''timeout'')
   \<and> store (fst (Reconcile tekton_v1 (\<lambda>_. Inl (StatusError StatusReasonTimeout ''timeout''))
         \<lparr>store = [(''ns'', ''c'') \<mapsto> (''Running'', '''')], info = []\<rparr> (''ns'', ''c'')))
       (''ns'', ''c'') = Some (''Running'', '''')
   \<and> snd (Reconcile tekton_v1 (\<lambda>_. Inl (StatusError StatusReasonTimeout ''timeout''))
         \<lparr>store = [(''ns'', ''c'') \<mapsto> (''Running'', '''')], info = []\<rparr> (''ns'', ''c''))
       = (Result_zero, Some (StatusError StatusReasonTimeout ''timeout''))"
  using Reconcile_transient_error
      [of "\<lambda>_. Inl (StatusError StatusReasonTimeout ''timeout'')" "(''ns'', ''c'')"
          "StatusError StatusReasonTimeout ''timeout''" tekton_v1
          "\<lparr>store = [(''ns'', ''c'') \<mapsto> (''Running'', '''')], info = []\<rparr>"]
  by simp

end
